theory Spec2Isabelle
  imports Main "HOL-Library.Sublist"
begin

section \<open>The mail crawler (mailbot.go)\<close>

text \<open>
  Go strings are byte sequences, so a Go \<open>string\<close> is a \<^typ>\<open>string\<close> (a list of
  \<^typ>\<open>char\<close>, one per byte). The patterns of this program only name ASCII bytes, and
  no byte of a multi-byte UTF-8 sequence is an ASCII byte, so matching byte by byte
  finds what Go's rune-wise matching finds.
\<close>

subsection \<open>Library functions of package strings\<close>

text \<open>\<open>strings.HasPrefix(s, prefix)\<close>.\<close>

fun HasPrefix :: "string \<Rightarrow> string \<Rightarrow> bool" where
  "HasPrefix s [] = True"
| "HasPrefix [] (p # ps) = False"
| "HasPrefix (c # cs) (p # ps) = (c = p \<and> HasPrefix cs ps)"

text \<open>\<open>strings.Index(s, substr)\<close>: the position of the first occurrence, \<open>None\<close> for Go's -1.\<close>

fun Index :: "string \<Rightarrow> string \<Rightarrow> nat option" where
  "Index [] substr = (if substr = [] then Some 0 else None)"
| "Index (c # cs) substr =
     (if HasPrefix (c # cs) substr then Some 0 else map_option Suc (Index cs substr))"

text \<open>\<open>strings.Contains(s, substr)\<close> is \<open>Index(s, substr) >= 0\<close>.\<close>

definition Contains :: "string \<Rightarrow> string \<Rightarrow> bool" where
  "Contains s substr = (Index s substr \<noteq> None)"

text \<open>\<open>strings.Join(elems, sep)\<close>.\<close>

fun Join :: "string list \<Rightarrow> string \<Rightarrow> string" where
  "Join [] sep = []"
| "Join [e] sep = e"
| "Join (e # es) sep = e @ sep @ Join es sep"

text \<open>
  \<open>strings.Split(s, sep)\<close> cuts \<open>s\<close> at every occurrence of \<open>sep\<close>, found from left to
  right with \<open>Index\<close>, as Go's \<open>genSplit\<close> does. The program only splits at non-empty
  literals; for the empty separator Go explodes the string into its UTF-8 sequences,
  which are the single bytes on ASCII text.
\<close>

function Split :: "string \<Rightarrow> string \<Rightarrow> string list" where
  "Split s sep =
     (if sep = [] then map (\<lambda>c. [c]) s
      else (case Index s sep of
              None \<Rightarrow> [s]
            | Some m \<Rightarrow> take m s # Split (drop (m + length sep) s) sep))"
  by pat_completeness auto
termination
proof (relation "measure (\<lambda>(s, sep). length s)")
  show "wf (measure (\<lambda>(s, sep). length s))" by simp
next
  fix s sep :: string and m :: nat
  assume sep: "sep \<noteq> []" and idx: "Index s sep = Some m"
  have "s \<noteq> []" using sep idx by (cases s) auto
  moreover have "0 < m + length sep" using sep by simp
  ultimately have "length (drop (m + length sep) s) < length s" by simp
  then show "((drop (m + length sep) s, sep), (s, sep)) \<in> measure (\<lambda>(s, sep). length s)"
    by simp
qed

declare Split.simps [simp del]

text \<open>
  \<open>strings.Replace(s, old, new, -1)\<close> replaces every non-overlapping occurrence of
  \<open>old\<close>, from left to right. The program only replaces non-empty literals; for the
  empty \<open>old\<close> Go inserts \<open>new\<close> before the string and after each UTF-8 sequence.
\<close>

function Replace :: "string \<Rightarrow> string \<Rightarrow> string \<Rightarrow> string" where
  "Replace s old new =
     (if old = [] then new @ concat (map (\<lambda>c. c # new) s)
      else (case Index s old of
              None \<Rightarrow> s
            | Some m \<Rightarrow> take m s @ new @ Replace (drop (m + length old) s) old new))"
  by pat_completeness auto
termination
proof (relation "measure (\<lambda>(s, old, new). length s)")
  show "wf (measure (\<lambda>(s, old, new). length s))" by simp
next
  fix s old new :: string and m :: nat
  assume old: "old \<noteq> []" and idx: "Index s old = Some m"
  have "s \<noteq> []" using old idx by (cases s) auto
  moreover have "0 < m + length old" using old by simp
  ultimately have "length (drop (m + length old) s) < length s" by simp
  then show "((drop (m + length old) s, old, new), (s, old, new))
      \<in> measure (\<lambda>(s, old, new). length s)"
    by simp
qed

declare Replace.simps [simp del]

subsection \<open>Regular expressions of package regexp\<close>

text \<open>
  A compiled pattern is modelled by its anchored matcher: given the text that starts at
  some position, the length of the match the engine prefers there, or \<open>None\<close> when the
  pattern does not match at that position.

  \<open>\w\<close> is \<open>[0-9A-Za-z_]\<close>.
\<close>

definition isWord :: "char \<Rightarrow> bool" where
  "isWord c = (c \<in> set ''0123456789ABCDEFGHIJKLMNOPQRSTUVWXYZabcdefghijklmnopqrstuvwxyz_'')"

definition isWordDot :: "char \<Rightarrow> bool" where
  "isWordDot c = (isWord c \<or> c = CHR ''.'')"

text \<open>
  The pattern \<open>[\w]+@[\w.]+\<close> of \<open>GetMail\<close>. \<open>[\w]+\<close> is greedy and \<open>@\<close> is not a
  word character, so the first part is the whole run of word characters at the
  position; it must be followed by \<open>@\<close> and by the (greedy, non-empty) run of word
  characters and dots.
\<close>

definition mailRe :: "string \<Rightarrow> nat option" where
  "mailRe s =
     (let local = takeWhile isWord s; rest = dropWhile isWord s in
      if local = [] then None
      else (case rest of
              [] \<Rightarrow> None
            | c # t \<Rightarrow>
                if c \<noteq> CHR ''@'' then None
                else (let domain = takeWhile isWordDot t in
                      if domain = [] then None
                      else Some (length local + 1 + length domain))))"

text \<open>
  The width in bytes of the first rune of a string, as \<open>utf8.DecodeRuneInString\<close>
  computes it: a byte that does not start a well-formed UTF-8 sequence is a rune of
  width 1 (the matcher reads it as U+FFFD).
\<close>

definition inRange :: "nat \<Rightarrow> nat \<Rightarrow> char \<Rightarrow> bool" where
  "inRange lo hi c = (lo \<le> of_char c \<and> (of_char c :: nat) \<le> hi)"

definition runeLen :: "string \<Rightarrow> nat" where
  "runeLen s =
     (case s of
        [] \<Rightarrow> 0
      | b0 # t \<Rightarrow>
          (let n = (of_char b0 :: nat) in
           if n < 0x80 then 1
           else if n < 0xC2 \<or> 0xF4 < n then 1
           else
             (let sz = (if n < 0xE0 then 2 else if n < 0xF0 then 3 else (4::nat));
                  lo = (if n = 0xE0 then 0xA0 else if n = 0xF0 then 0x90 else 0x80);
                  hi = (if n = 0xED then 0x9F else if n = 0xF4 then 0x8F else 0xBF)
              in if length s < sz then 1
                 else if \<not> inRange lo hi (s ! 1) then 1
                 else if sz \<le> 2 then 2
                 else if \<not> inRange 0x80 0xBF (s ! 2) then 1
                 else if sz \<le> 3 then 3
                 else if \<not> inRange 0x80 0xBF (s ! 3) then 1
                 else 4)))"

text \<open>
  The fixed part of a listing pattern is a sequence of literal bytes and of \<open>.\<close>, which
  matches one rune other than a newline (the dots of \<open>paste.debian.net\<close> are not
  escaped in the source). The result is the number of bytes matched.
\<close>

datatype atom = Lit char | AnyChar

fun matchAtoms :: "atom list \<Rightarrow> string \<Rightarrow> nat option" where
  "matchAtoms [] s = Some 0"
| "matchAtoms (Lit a # as) [] = None"
| "matchAtoms (Lit a # as) (c # cs) =
     (if c = a then map_option Suc (matchAtoms as cs) else None)"
| "matchAtoms (AnyChar # as) [] = None"
| "matchAtoms (AnyChar # as) (c # cs) =
     (if c = CHR ''\<newline>'' then None
      else (let n = runeLen (c # cs) in
            map_option (\<lambda>k. n + k) (matchAtoms as (drop n (c # cs)))))"

text \<open>
  The lazy group \<open>(.*?)\<close> followed by a literal: the engine prefers the fewest
  repetitions, so it stops at the first place where the literal follows; \<open>.\<close> does not
  match a newline. The literals that follow the group in this program start with an
  ASCII byte, which is always a rune of its own, so stepping by bytes visits every
  place where the literal can follow.
\<close>

fun lazyUntil :: "string \<Rightarrow> string \<Rightarrow> nat option" where
  "lazyUntil suf [] = (if suf = [] then Some 0 else None)"
| "lazyUntil suf (c # cs) =
     (if HasPrefix (c # cs) suf then Some (length suf)
      else if c = CHR ''\<newline>'' then None
      else map_option Suc (lazyUntil suf cs))"

text \<open>A pattern of the shape \<open>pre(.*?)suf\<close>: a fixed part, the lazy group, a literal.\<close>

definition lazyRe :: "atom list \<Rightarrow> string \<Rightarrow> string \<Rightarrow> nat option" where
  "lazyRe pre suf s =
     (case matchAtoms pre s of
        None \<Rightarrow> None
      | Some n \<Rightarrow> map_option (\<lambda>k. n + k) (lazyUntil suf (drop n s)))"

text \<open>
  \<open>r.FindAllString(s, -1)\<close>: the successive non-overlapping matches, each the match at
  the leftmost position where the pattern matches, the search resuming where the match
  ended. The counter is the number of bytes of the last match still to skip. Go returns
  \<open>nil\<close> when there is no match: the empty list. No pattern of this program matches the
  empty string, and each starts with an ASCII byte, so every position where it matches is
  the start of a rune.
\<close>

fun scan :: "(string \<Rightarrow> nat option) \<Rightarrow> nat \<Rightarrow> string \<Rightarrow> string list" where
  "scan r k [] = []"
| "scan r (Suc k) (c # cs) = scan r k cs"
| "scan r 0 (c # cs) =
     (case r (c # cs) of
        None \<Rightarrow> scan r 0 cs
      | Some n \<Rightarrow> take n (c # cs) # scan r (n - 1) cs)"

definition FindAllString :: "(string \<Rightarrow> nat option) \<Rightarrow> string \<Rightarrow> string list" where
  "FindAllString r s = scan r 0 s"

subsection \<open>The crawler and the world it acts on\<close>

record Flags =
  filename :: string
  printToStdout :: bool
  verbose :: bool
  pastebin :: bool
  debian :: bool
  slexy :: bool

text \<open>
  \<open>c.file\<close> is a \<open>*os.File\<close>: \<open>nil\<close> when \<open>os.OpenFile\<close> failed, the open log file
  otherwise.
\<close>

datatype File = NilFile | LogFile

record Crawler =
  flags :: Flags
  "file" :: File

text \<open>
  What the program acts on: the bytes of the log file, of standard output and of
  standard error, and the URLs requested so far, in order.
\<close>

record World =
  log :: string
  out :: string
  err :: string
  reqs :: "string list"

definition blacklist :: "string list" where
  "blacklist = [''formorer@debian.org'', ''user@user'']"

text \<open>\<open>fmt.Println(s)\<close> on standard output.\<close>

definition Println :: "string \<Rightarrow> World \<Rightarrow> World" where
  "Println s w = w\<lparr>out := out w @ s @ ''\<newline>''\<rparr>"

text \<open>\<open>report(err)\<close>: \<open>fmt.Fprintln(os.Stderr, err)\<close>; an error is its message.\<close>

definition report :: "string \<Rightarrow> World \<Rightarrow> World" where
  "report e w = w\<lparr>err := err w @ e @ ''\<newline>''\<rparr>"

text \<open>
  \<open>f.WriteString(s)\<close>: on a \<open>nil\<close> file the call returns \<open>os.ErrInvalid\<close> and writes
  nothing; the program discards the result. The open file is in append mode, and a
  write to it is taken to succeed. \<open>f.Sync()\<close> changes no contents.
\<close>

definition WriteString :: "File \<Rightarrow> string \<Rightarrow> World \<Rightarrow> World" where
  "WriteString f s w = (case f of NilFile \<Rightarrow> w | LogFile \<Rightarrow> w\<lparr>log := log w @ s\<rparr>)"

definition Sync :: "File \<Rightarrow> World \<Rightarrow> World" where
  "Sync f w = w"

subsection \<open>FreshFilter\<close>

text \<open>The inner loop \<open>for _, black := range blacklist\<close>, with the flag \<open>blocked\<close>.\<close>

fun blacklist_loop :: "string \<Rightarrow> string list \<Rightarrow> bool \<Rightarrow> World \<Rightarrow> bool \<times> World" where
  "blacklist_loop mail [] blocked w = (blocked, w)"
| "blacklist_loop mail (black # bs) blocked w =
     (if mail = black
      then blacklist_loop mail bs True (Println (mail @ '' '' @ black) w)
      else blacklist_loop mail bs blocked w)"

text \<open>The outer loop \<open>for _, mail := range mails\<close>, with the slice \<open>fresh\<close>.\<close>

fun FreshFilter_loop :: "string list \<Rightarrow> string list \<Rightarrow> World \<Rightarrow> string list \<times> World" where
  "FreshFilter_loop [] fresh w = (fresh, w)"
| "FreshFilter_loop (mail # mails) fresh w =
     (if Contains mail ''.png'' then FreshFilter_loop mails fresh w
      else if Contains mail ''.gif'' then FreshFilter_loop mails fresh w
      else if Contains mail ''.jpg'' then FreshFilter_loop mails fresh w
      else if Contains mail ''._'' then FreshFilter_loop mails fresh w
      else if Contains mail ''@.'' then FreshFilter_loop mails fresh w
      else if \<not> Contains mail ''.'' then FreshFilter_loop mails fresh w
      else (case blacklist_loop mail blacklist False w of
              (blocked, w') \<Rightarrow>
                if \<not> blocked then FreshFilter_loop mails (fresh @ [mail]) w'
                else FreshFilter_loop mails fresh w'))"

definition FreshFilter :: "string list \<Rightarrow> World \<Rightarrow> string list \<times> World" where
  "FreshFilter mails w = FreshFilter_loop mails [] w"

subsection \<open>GetMail\<close>

definition GetMail :: "Crawler \<Rightarrow> string \<Rightarrow> World \<Rightarrow> World" where
  "GetMail c page w =
     (let mails = FindAllString mailRe page in
      if mails = [] then
        (if verbose (flags c) then report ''no mail found'' w else w)
      else
        (case FreshFilter mails w of
           (fresh, w1) \<Rightarrow>
             if length fresh \<noteq> 0 then w1
             else
               (let toWrite = Join fresh ''\<newline>'';
                    w2 = WriteString (file c) (toWrite @ ''\<newline>'') w1;
                    w3 = (if printToStdout (flags c) then Println toWrite w2 else w2)
                in Sync (file c) w3)))"

subsection \<open>init\<close>


subsection \<open>FetchPage\<close>

text \<open>
  What the network answers to a GET of a URL: \<open>client.Get\<close> fails with an error, or it
  returns a response whose body \<open>ioutil.ReadAll\<close> reads: the bytes read, and the read
  error if the transfer broke off (then the bytes are those read before the error).
  Within one round a URL is taken to be answered the same way each time.
\<close>

datatype Response = GetError string | Body string "string option"

type_synonym Network = "string \<Rightarrow> Response"

text \<open>The result is Go's pair \<open>(string, error)\<close>; \<open>None\<close> is the \<open>nil\<close> error.\<close>

definition FetchPage ::
  "Crawler \<Rightarrow> Network \<Rightarrow> string \<Rightarrow> World \<Rightarrow> (string \<times> string option) \<times> World" where
  "FetchPage c net url w =
     (let w1 = (if verbose (flags c)
                then w\<lparr>out := out w @ ''Fetching: '' @ url @ ''\<newline>''\<rparr> else w);
          w2 = w1\<lparr>reqs := reqs w1 @ [url]\<rparr>
      in case net url of
           GetError e \<Rightarrow> (('''', Some e), report e w2)
         | Body b rerr \<Rightarrow> ((b, rerr), w2))"

subsection \<open>The three scrapers\<close>

text \<open>
  \<open>Run\<close> starts the enabled scrapers as goroutines, waits for all of them and starts
  over, forever; \<open>wg.Done()\<close> only tells \<open>Run\<close> that a scraper has ended. Here is one
  scraper's round, run on its own; how the rounds of several scrapers interleave is
  outside this model.
\<close>

text \<open>The loop \<open>for _, v := range raws\<close> of \<open>Pastebin\<close>.\<close>

fun Pastebin_loop :: "Crawler \<Rightarrow> Network \<Rightarrow> string list \<Rightarrow> World \<Rightarrow> World" where
  \<open>Pastebin_loop c net [] w = w\<close>
| \<open>Pastebin_loop c net (v # raws) w =
     (let parser = Split v ''="'' in
      if length parser < 4 then report ''can't parse'' w
      else
        (let rawlink = ''https://pastebin.com/raw'' @ Replace (parser ! 3) ''">'' '''' in
         case FetchPage c net rawlink w of
           ((page, e), w1) \<Rightarrow>
             (case e of
                Some m \<Rightarrow> report m w1
              | None \<Rightarrow> Pastebin_loop c net raws (GetMail c page w1))))\<close>

definition Pastebin :: "Crawler \<Rightarrow> Network \<Rightarrow> World \<Rightarrow> World" where
  \<open>Pastebin c net w =
     (let r = lazyRe (map Lit ''class="i_p0" alt="" /><a href="'') ''">'';
          url = ''https://pastebin.com/archive''
      in case FetchPage c net url w of
           ((page, e), w1) \<Rightarrow>
             (let w2 = (case e of Some m \<Rightarrow> report m w1 | None \<Rightarrow> w1);
                  raws = FindAllString r page
              in if raws = [] then
                   (if verbose (flags c) then report ''no raw link'' w2 else w2)
                 else Pastebin_loop c net raws w2))\<close>

text \<open>The loop of \<open>Debian\<close>.\<close>

fun Debian_loop :: "Crawler \<Rightarrow> Network \<Rightarrow> string list \<Rightarrow> World \<Rightarrow> World" where
  \<open>Debian_loop c net [] w = w\<close>
| \<open>Debian_loop c net (v # raws) w =
     (let parser = Split v ''<li><a href='//'' in
      if length parser < 2 then report ''can't parse'' w
      else
        (let rawlink = ''http://'' @ Replace (parser ! 1) '''>'' '''' in
         case FetchPage c net rawlink w of
           ((page, e), w1) \<Rightarrow>
             (case e of
                Some m \<Rightarrow> report m w1
              | None \<Rightarrow> Debian_loop c net raws (GetMail c page w1))))\<close>

definition Debian :: "Crawler \<Rightarrow> Network \<Rightarrow> World \<Rightarrow> World" where
  \<open>Debian c net w =
     (let r = lazyRe (map Lit ''<li><a href='//paste'' @ [AnyChar] @ map Lit ''debian''
                       @ [AnyChar] @ map Lit ''net'') '''>'';
          url = ''http://paste.debian.net''
      in case FetchPage c net url w of
           ((page, e), w1) \<Rightarrow>
             (let w2 = (case e of Some m \<Rightarrow> report m w1 | None \<Rightarrow> w1);
                  raws = FindAllString r page
              in if raws = [] then
                   (if verbose (flags c) then report ''no raw link'' w2 else w2)
                 else Debian_loop c net raws w2))\<close>

text \<open>The loop of \<open>Slexy\<close>.\<close>

fun Slexy_loop :: "Crawler \<Rightarrow> Network \<Rightarrow> string list \<Rightarrow> World \<Rightarrow> World" where
  \<open>Slexy_loop c net [] w = w\<close>
| \<open>Slexy_loop c net (v # raws) w =
     (let parser = Split v ''/view'' in
      if length parser < 2 then report ''can't parse'' w
      else
        (let rawlink = ''http://slexy.org/raw'' @ Replace (parser ! 1) ''">'' '''' in
         case FetchPage c net rawlink w of
           ((page, e), w1) \<Rightarrow>
             (case e of
                Some m \<Rightarrow> report m w1
              | None \<Rightarrow> Slexy_loop c net raws (GetMail c page w1))))\<close>

definition Slexy :: "Crawler \<Rightarrow> Network \<Rightarrow> World \<Rightarrow> World" where
  \<open>Slexy c net w =
     (let r = lazyRe (map Lit ''/view'') ''">'';
          url = ''http://slexy.org/recent''
      in case FetchPage c net url w of
           ((page, e), w1) \<Rightarrow>
             (let w2 = (case e of Some m \<Rightarrow> report m w1 | None \<Rightarrow> w1);
                  raws = FindAllString r page
              in if raws = [] then
                   (if verbose (flags c) then report ''no raw link'' w2 else w2)
                 else Slexy_loop c net raws w2))\<close>

subsection \<open>Notions of the specification\<close>

text \<open>
  The defaults of the flags declared in \<open>init\<close>; the default file name depends on the
  clock and is a parameter.
\<close>

definition defaultFlags :: "string \<Rightarrow> Flags" where
  "defaultFlags name =
     \<lparr>filename = name, printToStdout = True, verbose = False,
      pastebin = True, debian = True, slexy = True\<rparr>"

definition emptyWorld :: World where
  "emptyWorld = \<lparr>log = [], out = [], err = [], reqs = []\<rparr>"

text \<open>
  The Candidate Filter in the words of the specification: a candidate is rejected if it
  contains one of the substrings \<open>.png\<close>, \<open>.gif\<close>, \<open>.jpg\<close>, \<open>._\<close>, \<open>@.\<close> or contains no
  \<open>.\<close> (the structural checks), or if it equals an entry of the blacklist. Containing a
  substring is \<^const>\<open>sublist\<close>.
\<close>

definition structural :: "string \<Rightarrow> bool" where
  "structural m \<longleftrightarrow>
     sublist ''.png'' m \<or> sublist ''.gif'' m \<or> sublist ''.jpg'' m \<or> sublist ''._'' m \<or>
     sublist ''@.'' m \<or> CHR ''.'' \<notin> set m"

definition rejected :: "string \<Rightarrow> bool" where
  "rejected m \<longleftrightarrow> structural m \<or> m \<in> set blacklist"

text \<open>
  One line \<open>mail mail\<close> for every candidate that passes the structural checks and
  equals a blacklist entry.
\<close>

definition echo :: "string list \<Rightarrow> string" where
  "echo mails =
     concat (map (\<lambda>m. m @ '' '' @ m @ ''\<newline>'')
       (filter (\<lambda>m. m \<in> set blacklist \<and> \<not> structural m) mails))"

subsection \<open>The common shape of the scrapers\<close>

text \<open>
  Deriving the document URL from a fragment, as the first lines of each loop body do;
  \<open>None\<close> when the fragment has too few parts (the branch that reports
  \<open>can't parse\<close>).
\<close>

definition Pastebin_rawlink :: "string \<Rightarrow> string option" where
  \<open>Pastebin_rawlink v =
     (let parser = Split v ''="'' in
      if length parser < 4 then None
      else Some (''https://pastebin.com/raw'' @ Replace (parser ! 3) ''">'' ''''))\<close>

definition Debian_rawlink :: "string \<Rightarrow> string option" where
  \<open>Debian_rawlink v =
     (let parser = Split v ''<li><a href='//'' in
      if length parser < 2 then None
      else Some (''http://'' @ Replace (parser ! 1) '''>'' ''''))\<close>

definition Slexy_rawlink :: "string \<Rightarrow> string option" where
  \<open>Slexy_rawlink v =
     (let parser = Split v ''/view'' in
      if length parser < 2 then None
      else Some (''http://slexy.org/raw'' @ Replace (parser ! 1) ''">'' ''''))\<close>

text \<open>
  The three scrapers differ only in the pattern, the listing URL and the derivation of
  the document URL. \<open>round\<close> is their common shape (the generic contract of the
  specification); each scraper is shown below to be an instance of it.
\<close>

fun round_loop ::
  "(string \<Rightarrow> string option) \<Rightarrow> Crawler \<Rightarrow> Network \<Rightarrow> string list \<Rightarrow> World \<Rightarrow> World" where
  "round_loop derive c net [] w = w"
| "round_loop derive c net (v # raws) w =
     (case derive v of
        None \<Rightarrow> report ''can't parse'' w
      | Some rawlink \<Rightarrow>
          (case FetchPage c net rawlink w of
             ((page, e), w1) \<Rightarrow>
               (case e of
                  Some m \<Rightarrow> report m w1
                | None \<Rightarrow> round_loop derive c net raws (GetMail c page w1))))"

definition round ::
  "(string \<Rightarrow> nat option) \<Rightarrow> string \<Rightarrow> (string \<Rightarrow> string option) \<Rightarrow>
     Crawler \<Rightarrow> Network \<Rightarrow> World \<Rightarrow> World" where
  "round r url derive c net w =
     (case FetchPage c net url w of
        ((page, e), w1) \<Rightarrow>
          (let w2 = (case e of Some m \<Rightarrow> report m w1 | None \<Rightarrow> w1);
               raws = FindAllString r page
           in if raws = [] then
                (if verbose (flags c) then report ''no raw link'' w2 else w2)
              else round_loop derive c net raws w2))"

text \<open>
  What a round leaves behind when the GET of the listing page failed with the error
  \<open>e\<close>: the listing URL is the only request, the log file is untouched, standard
  output holds at most the verbose \<open>Fetching\<close> line, and standard error starts with
  the error twice (once from \<open>FetchPage\<close>, once from the scraper); without
  \<open>-verbose\<close> it holds nothing more.
\<close>

definition aborted_round :: "Crawler \<Rightarrow> string \<Rightarrow> string \<Rightarrow> World \<Rightarrow> World \<Rightarrow> bool" where
  "aborted_round c url e w w' \<longleftrightarrow>
     reqs w' = reqs w @ [url] \<and> log w' = log w \<and>
     out w' = out w @ (if verbose (flags c) then ''Fetching: '' @ url @ ''\<newline>'' else []) \<and>
     prefix (err w @ e @ ''\<newline>'' @ e @ ''\<newline>'') (err w') \<and>
     (\<not> verbose (flags c) \<longrightarrow> err w' = err w @ e @ ''\<newline>'' @ e @ ''\<newline>'')"

subsection \<open>Example inputs\<close>

definition defaultCrawler :: "string \<Rightarrow> Crawler" where
  "defaultCrawler name = \<lparr>flags = defaultFlags name, file = LogFile\<rparr>"

text \<open>A network on which every GET fails.\<close>

definition refusing :: Network where
  "refusing url = GetError ''connection refused''"

text \<open>A network on which every transfer breaks off after the bytes \<open>partial\<close>.\<close>

definition brokenBody :: Network where
  "brokenBody url = Body ''partial'' (Some ''unexpected EOF'')"


text \<open>The same listing, but its transfer breaks off after the first fragment.\<close>

definition cutListing :: Network where
  \<open>cutListing url =
     (if url = ''https://pastebin.com/archive''
      then Body ''class="i_p0" alt="" /><a href="/abc123">'' (Some ''unexpected EOF'')
      else if url = ''https://pastebin.com/raw/abc123''
      then Body ''no address here'' None
      else GetError ''connection refused'')\<close>

section \<open>Properties\<close>

subsection \<open>The library functions\<close>

lemma HasPrefix_iff_prefix: "HasPrefix s p \<longleftrightarrow> prefix p s"
  by (induction s p rule: HasPrefix.induct) auto

lemma Index_None_iff: "Index s sub = None \<longleftrightarrow> \<not> sublist sub s"
  by (induction s) (auto simp: HasPrefix_iff_prefix sublist_Cons_right)

lemma Contains_iff_sublist: "Contains s sub \<longleftrightarrow> sublist sub s"
  by (simp add: Contains_def Index_None_iff)

lemma sublist_single_iff: "sublist [c] s \<longleftrightarrow> c \<in> set s"
  by (induction s) (auto simp: sublist_Cons_right)

subsection \<open>The patterns\<close>

text \<open>Every string that \<open>FindAllString\<close> returns is a match of the pattern at some place.\<close>

lemma scan_elem:
  "v \<in> set (scan r k s) \<Longrightarrow> \<exists>t n. r t = Some n \<and> v = take n t"
proof (induction r k s rule: scan.induct)
  case (1 r k)
  then show ?case by simp
next
  case (2 r k c cs)
  then show ?case by simp
next
  case (3 r c cs)
  then show ?case by (auto split: option.splits)
qed

text \<open>
  Every match of the pattern of \<open>GetMail\<close> has the lexical shape \<open>\w+@[\w.]+\<close>.
\<close>

lemma mailRe_shape:
  assumes "mailRe s = Some n"
  shows "\<exists>l d. take n s = l @ ''@'' @ d \<and> l \<noteq> [] \<and> (\<forall>c\<in>set l. isWord c) \<and>
           d \<noteq> [] \<and> (\<forall>c\<in>set d. isWordDot c)"
proof -
  let ?l = "takeWhile isWord s"
  from assms have l: "?l \<noteq> []" by (auto simp: mailRe_def Let_def split: if_splits)
  from assms l obtain t where r: "dropWhile isWord s = CHR ''@'' # t"
    by (auto simp: mailRe_def Let_def split: list.splits if_splits)
  let ?d = "takeWhile isWordDot t"
  from assms l r have d: "?d \<noteq> []" and n: "n = length ?l + 1 + length ?d"
    by (auto simp: mailRe_def Let_def split: if_splits)
  have s: "s = ?l @ CHR ''@'' # ?d @ dropWhile isWordDot t"
    using takeWhile_dropWhile_id [of isWord s] r by simp
  have "take n s = take n (?l @ CHR ''@'' # ?d @ dropWhile isWordDot t)"
    using s by simp
  also have "\<dots> = ?l @ ''@'' @ ?d"
    using n takeWhile_eq_take [of isWordDot t] by simp
  finally have "take n s = ?l @ ''@'' @ ?d" .
  moreover have "\<forall>c\<in>set ?l. isWord c" by (auto dest: set_takeWhileD)
  moreover have "\<forall>c\<in>set ?d. isWordDot c" by (auto dest: set_takeWhileD)
  ultimately show ?thesis using l d by blast
qed

lemma FindAllString_mailRe_shape:
  assumes "m \<in> set (FindAllString mailRe page)"
  shows "\<exists>l d. m = l @ ''@'' @ d \<and> l \<noteq> [] \<and> (\<forall>c\<in>set l. isWord c) \<and>
           d \<noteq> [] \<and> (\<forall>c\<in>set d. isWordDot c)"
proof -
  have "\<exists>t n. mailRe t = Some n \<and> m = take n t"
    using assms scan_elem [of m mailRe 0 page] by (simp add: FindAllString_def)
  then show ?thesis using mailRe_shape by blast
qed

subsection \<open>FreshFilter\<close>

lemma blacklist_loop_fst:
  "fst (blacklist_loop mail bs blocked w) \<longleftrightarrow> blocked \<or> mail \<in> set bs"
  by (induction bs arbitrary: blocked w) auto

lemma blacklist_loop_snd:
  "snd (blacklist_loop mail blacklist False w) =
     (if mail \<in> set blacklist then Println (mail @ '' '' @ mail) w else w)"
  by (simp add: blacklist_def)

lemma FreshFilter_loop_fst:
  "fst (FreshFilter_loop mails fresh w) = fresh @ filter (\<lambda>m. \<not> rejected m) mails"
proof (induction mails arbitrary: fresh w)
  case Nil
  then show ?case by simp
next
  case (Cons mail mails)
  obtain blocked w' where bl: "blacklist_loop mail blacklist False w = (blocked, w')"
    by (cases "blacklist_loop mail blacklist False w")
  have blocked: "blocked \<longleftrightarrow> mail \<in> set blacklist"
    using blacklist_loop_fst [of mail blacklist False w] bl by simp
  show ?case
    using Cons.IH blocked bl
    by (simp add: rejected_def structural_def Contains_iff_sublist sublist_single_iff)
qed

lemma FreshFilter_loop_snd:
  "snd (FreshFilter_loop mails fresh w) = w\<lparr>out := out w @ echo mails\<rparr>"
proof (induction mails arbitrary: fresh w)
  case Nil
  then show ?case by (simp add: echo_def)
next
  case (Cons mail mails)
  obtain blocked w' where bl: "blacklist_loop mail blacklist False w = (blocked, w')"
    by (cases "blacklist_loop mail blacklist False w")
  have w': "w' = (if mail \<in> set blacklist then Println (mail @ '' '' @ mail) w else w)"
    using blacklist_loop_snd [of mail w] bl by simp
  have e: "echo (mail # mails) =
      (if mail \<in> set blacklist \<and> \<not> structural mail
       then mail @ '' '' @ mail @ ''\<newline>'' else []) @ echo mails"
    by (simp add: echo_def)
  show ?case
    unfolding e using Cons.IH bl w'
    by (simp add: structural_def Contains_iff_sublist sublist_single_iff Println_def)
qed

lemma FreshFilter_fst: "fst (FreshFilter mails w) = filter (\<lambda>m. \<not> rejected m) mails"
  by (simp add: FreshFilter_def FreshFilter_loop_fst)

lemma FreshFilter_snd: "snd (FreshFilter mails w) = w\<lparr>out := out w @ echo mails\<rparr>"
  by (simp add: FreshFilter_def FreshFilter_loop_snd)

lemma FreshFilter_eq:
  "FreshFilter mails w =
     (filter (\<lambda>m. \<not> rejected m) mails, w\<lparr>out := out w @ echo mails\<rparr>)"
  using FreshFilter_fst [of mails w] FreshFilter_snd [of mails w]
  by (cases "FreshFilter mails w") simp

text \<open>
  C3. For every candidate, \<open>FreshFilter\<close> rejects it exactly when it contains one of the
  substrings \<open>.png\<close>, \<open>.gif\<close>, \<open>.jpg\<close>, \<open>._\<close>, \<open>@.\<close>, or contains no \<open>.\<close>, or equals an
  entry of the blacklist; every other candidate is kept.
\<close>

theorem FreshFilter_rejects_iff:
  "fst (FreshFilter [mail] w) = (if rejected mail then [] else [mail])"
  by (simp add: FreshFilter_fst)

theorem FreshFilter_rejects_iff_witness:
  "rejected ''foo@bar'' \<and> fst (FreshFilter [''foo@bar''] emptyWorld) = []
   \<and> \<not> rejected ''alice@example.com''
   \<and> fst (FreshFilter [''alice@example.com''] emptyWorld) = [''alice@example.com'']"
proof -
  have r1: "rejected ''foo@bar''" by code_simp
  have r2: "\<not> rejected ''alice@example.com''" by code_simp
  show ?thesis
    using r1 r2 FreshFilter_rejects_iff [of "''foo@bar''" emptyWorld]
      FreshFilter_rejects_iff [of "''alice@example.com''" emptyWorld]
    by simp
qed

subsection \<open>GetMail\<close>

lemma mails_alice: "FindAllString mailRe ''alice@example.com'' = [''alice@example.com'']"
  by code_simp

lemma mails_foo: "FindAllString mailRe ''foo@bar'' = [''foo@bar'']"
  by code_simp

text \<open>
  Whatever the page, \<open>GetMail\<close> never writes a fresh list that is not empty, and all it
  ever appends to the log file is an empty line.
\<close>

lemma GetMail_fresh_never_written:
  "fst (FreshFilter (FindAllString mailRe page) w) \<noteq> [] \<Longrightarrow>
   log (GetMail c page w) = log w \<and>
   out (GetMail c page w) = out w @ echo (FindAllString mailRe page)"
  by (auto simp: GetMail_def FreshFilter_eq Let_def)

lemma GetMail_log:
  "log (GetMail c page w) = log w \<or> log (GetMail c page w) = log w @ ''\<newline>''"
  by (auto simp: GetMail_def FreshFilter_eq Let_def report_def WriteString_def Println_def
      Sync_def split: File.splits)

text \<open>
  C1. The claim: when the filtered list is not empty, \<open>GetMail\<close> writes it, joined with
  newlines and followed by a newline, to the log file. On the text \<open>alice@example.com\<close>
  the filtered list is that one address, and \<open>GetMail\<close> returns at
  \<open>len(fresh) != 0\<close> without writing anything: the world is unchanged.
\<close>

theorem GetMail_fresh_not_written:
  "fst (FreshFilter (FindAllString mailRe ''alice@example.com'') w) = [''alice@example.com'']
   \<and> GetMail c ''alice@example.com'' w = w"
proof -
  have r: "\<not> rejected ''alice@example.com''" by code_simp
  have e: "echo [''alice@example.com''] = []" using r by (simp add: echo_def rejected_def)
  show ?thesis using r e by (simp add: GetMail_def mails_alice FreshFilter_eq)
qed

text \<open>
  C2. The claim: when the filter rejects every candidate, \<open>GetMail\<close> writes nothing. On
  the text \<open>foo@bar\<close> the filtered list is empty, and \<open>GetMail\<close> goes past
  \<open>len(fresh) != 0\<close>: it appends a newline to the log file and, with \<open>-stdout\<close>, prints
  an empty line.
\<close>

theorem GetMail_empty_batch_written:
  "fst (FreshFilter (FindAllString mailRe ''foo@bar'') w) = []
   \<and> GetMail \<lparr>flags = fl, file = LogFile\<rparr> ''foo@bar'' w =
       w\<lparr>log := log w @ ''\<newline>'',
         out := out w @ (if printToStdout fl then ''\<newline>'' else [])\<rparr>"
proof -
  have r: "rejected ''foo@bar''" by code_simp
  have s: "structural ''foo@bar''" by code_simp
  have e: "echo [''foo@bar''] = []" using s by (simp add: echo_def)
  show ?thesis using r e
    by (simp add: GetMail_def mails_foo FreshFilter_eq WriteString_def Println_def Sync_def)
qed


lemma mails_scenario:
  "FindAllString mailRe ''contact me at alice@example.com or see logo.png@site.x'' =
     [''alice@example.com'', ''png@site.x'']"
  by code_simp

lemma mails_formorer: "FindAllString mailRe ''formorer@debian.org'' = [''formorer@debian.org'']"
  by code_simp

text \<open>
  C4 (as amended). On the document body
  \<open>contact me at alice@example.com or see logo.png@site.x\<close> the pattern finds two
  matches, \<open>alice@example.com\<close> and \<open>png@site.x\<close>: the part before \<open>@\<close> cannot
  contain a dot, so the second match starts after the dot of \<open>logo.png\<close> and does not
  contain \<open>.png\<close>. \<open>FreshFilter\<close> keeps both and prints nothing.
\<close>

theorem scenario_two_fresh:
  "FindAllString mailRe ''contact me at alice@example.com or see logo.png@site.x'' =
     [''alice@example.com'', ''png@site.x'']
   \<and> FreshFilter [''alice@example.com'', ''png@site.x''] w =
     ([''alice@example.com'', ''png@site.x''], w)"
proof -
  have r1: "\<not> rejected ''alice@example.com''" by code_simp
  have r2: "\<not> rejected ''png@site.x''" by code_simp
  have e: "echo [''alice@example.com'', ''png@site.x''] = []"
    using r1 r2 by (simp add: echo_def rejected_def)
  show ?thesis using r1 r2 e by (simp add: mails_scenario FreshFilter_eq)
qed

text \<open>
  C4, as first stated, fails: the pipeline does not yield the single address
  \<open>alice@example.com\<close>.
\<close>

theorem scenario_one_fresh_counterexample:
  "fst (FreshFilter
         (FindAllString mailRe ''contact me at alice@example.com or see logo.png@site.x'')
         emptyWorld) \<noteq> [''alice@example.com'']"
proof -
  have r1: "\<not> rejected ''alice@example.com''" by code_simp
  have r2: "\<not> rejected ''png@site.x''" by code_simp
  show ?thesis using r1 r2 by (simp add: mails_scenario FreshFilter_fst)
qed

lemma GetMail_reqs: "reqs (GetMail c page w) = reqs w"
  by (simp add: GetMail_def FreshFilter_eq Let_def report_def WriteString_def Println_def
      Sync_def split: File.splits)

lemma GetMail_err:
  "FindAllString mailRe page \<noteq> [] \<Longrightarrow> err (GetMail c page w) = err w"
  by (simp add: GetMail_def FreshFilter_eq Let_def WriteString_def Println_def
      Sync_def split: File.splits)

lemma GetMail_out_prefix:
  "FindAllString mailRe page = mails \<Longrightarrow> mails \<noteq> [] \<Longrightarrow>
   prefix (out w @ echo mails) (out (GetMail c page w))"
  by (auto simp: GetMail_def FreshFilter_eq Let_def WriteString_def Println_def
      Sync_def split: File.splits)

text \<open>
  C7 (as amended). When the pattern finds candidates and \<open>FreshFilter\<close> rejects all of
  them, \<open>GetMail\<close> writes nothing to standard error. On standard output \<open>FreshFilter\<close>
  prints one line \<open>mail mail\<close> for every candidate that passes the structural checks
  and equals a blacklist entry, and nothing for the other candidates; what \<open>GetMail\<close>
  has printed when it returns starts with these lines.
\<close>

theorem filter_exhaustion_output:
  "FindAllString mailRe page = mails \<and> mails \<noteq> [] \<and> fst (FreshFilter mails w) = [] \<longrightarrow>
     err (GetMail c page w) = err w \<and>
     snd (FreshFilter mails w) = w\<lparr>out := out w @ echo mails\<rparr> \<and>
     prefix (out w @ echo mails) (out (GetMail c page w))"
  using GetMail_err [of page c w] GetMail_out_prefix [of page mails w c]
    FreshFilter_snd [of mails w]
  by auto

theorem filter_exhaustion_output_witness:
  "FindAllString mailRe ''formorer@debian.org'' = [''formorer@debian.org'']
   \<and> fst (FreshFilter [''formorer@debian.org''] emptyWorld) = []
   \<and> err (GetMail (defaultCrawler ''crawler.log'') ''formorer@debian.org'' emptyWorld) = []
   \<and> out (snd (FreshFilter [''formorer@debian.org''] emptyWorld)) =
        ''formorer@debian.org formorer@debian.org\<newline>''
   \<and> prefix ''formorer@debian.org formorer@debian.org\<newline>''
        (out (GetMail (defaultCrawler ''crawler.log'') ''formorer@debian.org'' emptyWorld))"
proof -
  have r: "rejected ''formorer@debian.org''" by code_simp
  have s: "\<not> structural ''formorer@debian.org''" by code_simp
  have e: "echo [''formorer@debian.org''] = ''formorer@debian.org formorer@debian.org\<newline>''"
    using s by (simp add: echo_def blacklist_def)
  have f: "fst (FreshFilter [''formorer@debian.org''] emptyWorld) = []"
    using r by (simp add: FreshFilter_fst)
  show ?thesis
    using filter_exhaustion_output [of "''formorer@debian.org''" "[''formorer@debian.org'']"
        emptyWorld "defaultCrawler ''crawler.log''"] mails_formorer f e
    by (simp add: emptyWorld_def)
qed

text \<open>
  C7, as first stated, fails: the only candidate of the text \<open>formorer@debian.org\<close>
  is rejected, and \<open>FreshFilter\<close> prints a line on standard output.
\<close>

theorem blacklisted_candidate_echoed:
  "FreshFilter (FindAllString mailRe ''formorer@debian.org'') emptyWorld =
     ([], emptyWorld\<lparr>out := ''formorer@debian.org formorer@debian.org\<newline>''\<rparr>)"
proof -
  have r: "rejected ''formorer@debian.org''" by code_simp
  have s: "\<not> structural ''formorer@debian.org''" by code_simp
  have e: "echo [''formorer@debian.org''] = ''formorer@debian.org formorer@debian.org\<newline>''"
    using s by (simp add: echo_def blacklist_def)
  show ?thesis using r e by (simp add: mails_formorer FreshFilter_eq emptyWorld_def)
qed

subsection \<open>FetchPage\<close>

lemma FetchPage_GetError:
  "net url = GetError e \<Longrightarrow>
   FetchPage c net url w =
     (('''', Some e),
      report e
        (w\<lparr>out := out w @ (if verbose (flags c) then ''Fetching: '' @ url @ ''\<newline>'' else []),
           reqs := reqs w @ [url]\<rparr>))"
  by (simp add: FetchPage_def report_def)

lemma FetchPage_Body:
  "net url = Body b rerr \<Longrightarrow>
   FetchPage c net url w =
     ((b, rerr),
      w\<lparr>out := out w @ (if verbose (flags c) then ''Fetching: '' @ url @ ''\<newline>'' else []),
        reqs := reqs w @ [url]\<rparr>)"
  by (simp add: FetchPage_def)

text \<open>
  C8 (as amended). When the GET fails, \<open>FetchPage\<close> reports the error on standard
  error and returns it with an empty body. When reading the body fails, \<open>FetchPage\<close>
  returns the error with the bytes read so far and reports nothing.
\<close>

theorem FetchPage_failure:
  "(net url = GetError e \<longrightarrow>
      fst (FetchPage c net url w) = ('''', Some e) \<and>
      err (snd (FetchPage c net url w)) = err w @ e @ ''\<newline>'') \<and>
   (net url = Body b (Some e) \<longrightarrow>
      fst (FetchPage c net url w) = (b, Some e) \<and>
      err (snd (FetchPage c net url w)) = err w)"
  by (simp add: FetchPage_def report_def)

theorem FetchPage_failure_witness:
  "refusing ''http://slexy.org/recent'' = GetError ''connection refused''
   \<and> fst (FetchPage (defaultCrawler ''crawler.log'') refusing ''http://slexy.org/recent''
            emptyWorld) = ('''', Some ''connection refused'')
   \<and> err (snd (FetchPage (defaultCrawler ''crawler.log'') refusing ''http://slexy.org/recent''
            emptyWorld)) = ''connection refused\<newline>''
   \<and> brokenBody ''http://slexy.org/recent'' = Body ''partial'' (Some ''unexpected EOF'')
   \<and> fst (FetchPage (defaultCrawler ''crawler.log'') brokenBody ''http://slexy.org/recent''
            emptyWorld) = (''partial'', Some ''unexpected EOF'')
   \<and> err (snd (FetchPage (defaultCrawler ''crawler.log'') brokenBody ''http://slexy.org/recent''
            emptyWorld)) = []"
proof -
  have h1: "refusing ''http://slexy.org/recent'' = GetError ''connection refused''"
    by (simp add: refusing_def)
  have h2: "brokenBody ''http://slexy.org/recent'' = Body ''partial'' (Some ''unexpected EOF'')"
    by (simp add: brokenBody_def)
  show ?thesis
    using h1 h2
      FetchPage_failure [of refusing "''http://slexy.org/recent''" "''connection refused''"
        "defaultCrawler ''crawler.log''" emptyWorld "''partial''"]
      FetchPage_failure [of brokenBody "''http://slexy.org/recent''" "''unexpected EOF''"
        "defaultCrawler ''crawler.log''" emptyWorld "''partial''"]
    by (simp add: emptyWorld_def)
qed

text \<open>
  C8, as first stated, fails on a transfer that breaks off: the error comes back with a
  body that is not empty, and nothing is written to standard error.
\<close>

theorem FetchPage_read_failure_counterexample:
  "FetchPage (defaultCrawler ''crawler.log'') brokenBody ''http://slexy.org/recent'' emptyWorld =
     ((''partial'', Some ''unexpected EOF''),
      emptyWorld\<lparr>reqs := [''http://slexy.org/recent'']\<rparr>)"
  by (simp add: FetchPage_def brokenBody_def defaultCrawler_def defaultFlags_def emptyWorld_def)

subsection \<open>The scrapers are rounds\<close>

lemma Pastebin_loop_eq: "Pastebin_loop c net raws w = round_loop Pastebin_rawlink c net raws w"
  by (induction raws arbitrary: w)
     (auto simp: Pastebin_rawlink_def Let_def split: prod.splits option.splits)

lemma Debian_loop_eq: "Debian_loop c net raws w = round_loop Debian_rawlink c net raws w"
  by (induction raws arbitrary: w)
     (auto simp: Debian_rawlink_def Let_def split: prod.splits option.splits)

lemma Slexy_loop_eq: "Slexy_loop c net raws w = round_loop Slexy_rawlink c net raws w"
  by (induction raws arbitrary: w)
     (auto simp: Slexy_rawlink_def Let_def split: prod.splits option.splits)

lemma Pastebin_eq:
  \<open>Pastebin c net w =
     round (lazyRe (map Lit ''class="i_p0" alt="" /><a href="'') ''">'')
       ''https://pastebin.com/archive'' Pastebin_rawlink c net w\<close>
  unfolding Pastebin_def round_def Pastebin_loop_eq Let_def ..

lemma Debian_eq:
  \<open>Debian c net w =
     round (lazyRe (map Lit ''<li><a href='//paste'' @ [AnyChar] @ map Lit ''debian''
                       @ [AnyChar] @ map Lit ''net'') '''>'')
       ''http://paste.debian.net'' Debian_rawlink c net w\<close>
  unfolding Debian_def round_def Debian_loop_eq Let_def ..

lemma Slexy_eq:
  \<open>Slexy c net w =
     round (lazyRe (map Lit ''/view'') ''">'') ''http://slexy.org/recent'' Slexy_rawlink c net w\<close>
  unfolding Slexy_def round_def Slexy_loop_eq Let_def ..

subsection \<open>Fragments found by the patterns\<close>

text \<open>
  A match of a listing pattern starts with the literal the pattern starts with, and that
  literal already holds the separators the loop splits at. So every fragment that a
  scraper finds in a listing page is well-formed: in a run of a scraper the branch that
  reports \<open>can't parse\<close> is never taken.
\<close>

lemma matchAtoms_Lit:
  "matchAtoms (map Lit p @ as) t = Some m \<Longrightarrow>
     \<exists>k. t = p @ drop (length p) t \<and> m = length p + k"
proof (induction p arbitrary: t m)
  case Nil
  then show ?case by simp
next
  case (Cons a p)
  then show ?case by (cases t) (auto split: if_splits)
qed

lemma lazyRe_elem:
  assumes "lazyRe (map Lit p @ as) suf t = Some n"
  shows "\<exists>x. take n t = p @ x"
proof -
  from assms obtain m k where m: "matchAtoms (map Lit p @ as) t = Some m" and n: "n = m + k"
    by (auto simp: lazyRe_def split: option.splits)
  from matchAtoms_Lit [OF m] obtain j where t: "t = p @ drop (length p) t" and "m = length p + j"
    by blast
  then have "take n t = take n (p @ drop (length p) t)" by simp
  also have "\<dots> = p @ take (n - length p) (drop (length p) t)"
    using n \<open>m = length p + j\<close> by simp
  finally show ?thesis by blast
qed

lemma FindAllString_lazyRe_elem:
  "v \<in> set (FindAllString (lazyRe (map Lit p @ as) suf) page) \<Longrightarrow> \<exists>x. v = p @ x"
  using scan_elem [of v "lazyRe (map Lit p @ as) suf" 0 page] lazyRe_elem [of p as suf]
  by (fastforce simp: FindAllString_def)

lemma Split_nonempty: "sep \<noteq> [] \<Longrightarrow> Split s sep \<noteq> []"
  by (subst Split.simps) (simp split: option.splits)

lemma Pastebin_prefix_wellformed:
  \<open>Pastebin_rawlink (''class="i_p0" alt="" /><a href="'' @ x) \<noteq> None\<close>
proof -
  have \<open>length (Split (''class="i_p0" alt="" /><a href="'' @ x) ''="'') =
      3 + length (Split x ''="'')\<close>
    apply (subst Split.simps)
    apply simp
    apply (subst Split.simps)
    apply simp
    apply (subst Split.simps)
    apply simp
    done
  moreover have \<open>Split x ''="'' \<noteq> []\<close> by (rule Split_nonempty) simp
  ultimately have \<open>\<not> length (Split (''class="i_p0" alt="" /><a href="'' @ x) ''="'') < 4\<close>
    by (cases \<open>Split x ''="''\<close>) simp_all
  then show ?thesis by (simp add: Pastebin_rawlink_def Let_def del: append.simps)
qed

lemma Debian_prefix_wellformed:
  \<open>Debian_rawlink (''<li><a href='//paste'' @ x) \<noteq> None\<close>
proof -
  have \<open>length (Split (''<li><a href='//paste'' @ x) ''<li><a href='//'') =
      1 + length (Split (''paste'' @ x) ''<li><a href='//'')\<close>
    by (subst Split.simps) simp
  moreover have \<open>Split (''paste'' @ x) ''<li><a href='//'' \<noteq> []\<close>
    by (rule Split_nonempty) simp
  ultimately have
    \<open>\<not> length (Split (''<li><a href='//paste'' @ x) ''<li><a href='//'') < 2\<close>
    by (cases \<open>Split (''paste'' @ x) ''<li><a href='//''\<close>) simp_all
  then show ?thesis by (simp add: Debian_rawlink_def Let_def del: append.simps)
qed

lemma Slexy_prefix_wellformed: \<open>Slexy_rawlink (''/view'' @ x) \<noteq> None\<close>
proof -
  have \<open>length (Split (''/view'' @ x) ''/view'') = 1 + length (Split x ''/view'')\<close>
    by (subst Split.simps) simp
  moreover have \<open>Split x ''/view'' \<noteq> []\<close>
    by (rule Split_nonempty) simp
  ultimately have \<open>\<not> length (Split (''/view'' @ x) ''/view'') < 2\<close>
    by (cases \<open>Split x ''/view''\<close>) simp_all
  then show ?thesis by (simp add: Slexy_rawlink_def Let_def del: append.simps)
qed

lemma found_fragments_wellformed:
  \<open>(\<forall>v \<in> set (FindAllString
        (lazyRe (map Lit ''class="i_p0" alt="" /><a href="'') ''">'') page).
      Pastebin_rawlink v \<noteq> None) \<and>
   (\<forall>v \<in> set (FindAllString
        (lazyRe (map Lit ''<li><a href='//paste'' @ [AnyChar] @ map Lit ''debian''
                   @ [AnyChar] @ map Lit ''net'') '''>'') page).
      Debian_rawlink v \<noteq> None) \<and>
   (\<forall>v \<in> set (FindAllString (lazyRe (map Lit ''/view'') ''">'') page).
      Slexy_rawlink v \<noteq> None)\<close>
proof (intro conjI ballI)
  fix v
  assume \<open>v \<in> set (FindAllString
      (lazyRe (map Lit ''class="i_p0" alt="" /><a href="'') ''">'') page)\<close>
  then have \<open>\<exists>x. v = ''class="i_p0" alt="" /><a href="'' @ x\<close>
    using FindAllString_lazyRe_elem [of v \<open>''class="i_p0" alt="" /><a href="''\<close> "[]"]
    by simp
  then show "Pastebin_rawlink v \<noteq> None"
    using Pastebin_prefix_wellformed by blast
next
  fix v
  assume \<open>v \<in> set (FindAllString
      (lazyRe (map Lit ''<li><a href='//paste'' @ [AnyChar] @ map Lit ''debian''
                 @ [AnyChar] @ map Lit ''net'') '''>'') page)\<close>
  then have \<open>\<exists>x. v = ''<li><a href='//paste'' @ x\<close>
    by (rule FindAllString_lazyRe_elem)
  then show "Debian_rawlink v \<noteq> None"
    using Debian_prefix_wellformed by blast
next
  fix v
  assume \<open>v \<in> set (FindAllString (lazyRe (map Lit ''/view'') ''">'') page)\<close>
  then have \<open>\<exists>x. v = ''/view'' @ x\<close>
    using FindAllString_lazyRe_elem [of v \<open>''/view''\<close> "[]"] by simp
  then show "Slexy_rawlink v \<noteq> None"
    using Slexy_prefix_wellformed by blast
qed

subsection \<open>A failed listing fetch\<close>

lemma round_GetError:
  assumes "net url = GetError e"
  shows "round r url derive c net w =
     (let w1 = w\<lparr>out := out w @
                    (if verbose (flags c) then ''Fetching: '' @ url @ ''\<newline>'' else []),
                  reqs := reqs w @ [url]\<rparr>;
          w2 = report e (report e w1)
      in if verbose (flags c) then report ''no raw link'' w2 else w2)"
  by (simp add: round_def FetchPage_GetError [of net url, OF assms] FindAllString_def Let_def)

lemma round_aborted:
  assumes "net url = GetError e"
  shows "aborted_round c url e w (round r url derive c net w)"
  by (simp add: round_GetError [of net url, OF assms] aborted_round_def report_def Let_def)

text \<open>
  C5 (as amended). When the GET of the listing page fails, each scraper makes no
  further request (no document is fetched) and leaves the log file untouched; the
  failure is reported twice, once by \<open>FetchPage\<close> and once by the scraper, and without
  \<open>-verbose\<close> nothing else is written to standard error.
\<close>

theorem listing_GetError_round:
  "(net ''https://pastebin.com/archive'' = GetError e \<longrightarrow>
      aborted_round c ''https://pastebin.com/archive'' e w (Pastebin c net w)) \<and>
   (net ''http://paste.debian.net'' = GetError e \<longrightarrow>
      aborted_round c ''http://paste.debian.net'' e w (Debian c net w)) \<and>
   (net ''http://slexy.org/recent'' = GetError e \<longrightarrow>
      aborted_round c ''http://slexy.org/recent'' e w (Slexy c net w))"
  using round_aborted [of net _ e c w]
  by (simp add: Pastebin_eq Debian_eq Slexy_eq)

theorem listing_GetError_round_witness:
  "refusing ''https://pastebin.com/archive'' = GetError ''connection refused''
   \<and> refusing ''http://paste.debian.net'' = GetError ''connection refused''
   \<and> refusing ''http://slexy.org/recent'' = GetError ''connection refused''
   \<and> \<not> verbose (flags (defaultCrawler ''crawler.log''))
   \<and> Pastebin (defaultCrawler ''crawler.log'') refusing emptyWorld =
       emptyWorld\<lparr>err := ''connection refused\<newline>connection refused\<newline>'',
                  reqs := [''https://pastebin.com/archive'']\<rparr>
   \<and> Debian (defaultCrawler ''crawler.log'') refusing emptyWorld =
       emptyWorld\<lparr>err := ''connection refused\<newline>connection refused\<newline>'',
                  reqs := [''http://paste.debian.net'']\<rparr>
   \<and> Slexy (defaultCrawler ''crawler.log'') refusing emptyWorld =
       emptyWorld\<lparr>err := ''connection refused\<newline>connection refused\<newline>'',
                  reqs := [''http://slexy.org/recent'']\<rparr>"
proof -
  have h: "\<And>u. refusing u = GetError ''connection refused''" by (simp add: refusing_def)
  have v: "\<not> verbose (flags (defaultCrawler ''crawler.log''))"
    by (simp add: defaultCrawler_def defaultFlags_def)
  show ?thesis
    using h v listing_GetError_round [of refusing "''connection refused''"
        "defaultCrawler ''crawler.log''" emptyWorld]
    by (simp add: aborted_round_def emptyWorld_def)
qed

text \<open>
  C5, as first stated, fails: a refused GET of the listing page is reported twice; and
  a listing whose transfer breaks off after one fragment is reported once, after which
  the scraper goes on to fetch the document of that fragment.
\<close>

theorem listing_failure_counterexample:
  \<open>err (Pastebin (defaultCrawler ''crawler.log'') refusing emptyWorld) =
     ''connection refused\<newline>connection refused\<newline>''
   \<and> cutListing ''https://pastebin.com/archive'' =
       Body ''class="i_p0" alt="" /><a href="/abc123">'' (Some ''unexpected EOF'')
   \<and> Pastebin (defaultCrawler ''crawler.log'') cutListing emptyWorld =
       emptyWorld\<lparr>err := ''unexpected EOF\<newline>'',
                  reqs := [''https://pastebin.com/archive'',
                           ''https://pastebin.com/raw/abc123'']\<rparr>\<close>
  by code_simp

subsection \<open>A malformed fragment\<close>

lemma round_loop_reqs:
  assumes "map derive pre = map Some us" and "\<forall>u\<in>set us. \<exists>b. net u = Body b None"
  shows "reqs (round_loop derive c net pre w) = reqs w @ us"
  using assms
proof (induction pre arbitrary: us w)
  case Nil
  then show ?case by simp
next
  case (Cons v pre)
  from Cons.prems(1) obtain u us' where us: "us = u # us'" and v: "derive v = Some u"
    and rest: "map derive pre = map Some us'"
    by (cases us) auto
  from Cons.prems(2) us obtain b where b: "net u = Body b None" by auto
  have "\<forall>u\<in>set us'. \<exists>b. net u = Body b None" using Cons.prems(2) us by simp
  from Cons.IH [OF rest this]
  show ?case by (simp add: v us FetchPage_Body [of net u, OF b] GetMail_reqs)
qed

lemma round_loop_malformed:
  assumes "map derive pre = map Some us" and "\<forall>u\<in>set us. \<exists>b. net u = Body b None"
    and "derive bad = None"
  shows "round_loop derive c net (pre @ bad # post) w =
           report ''can't parse'' (round_loop derive c net pre w)"
  using assms(1,2)
proof (induction pre arbitrary: us w)
  case Nil
  then show ?case by (simp add: assms(3))
next
  case (Cons v pre)
  from Cons.prems(1) obtain u us' where us: "us = u # us'" and v: "derive v = Some u"
    and rest: "map derive pre = map Some us'"
    by (cases us) auto
  from Cons.prems(2) us obtain b where b: "net u = Body b None" by auto
  have "\<forall>u\<in>set us'. \<exists>b. net u = Body b None" using Cons.prems(2) us by simp
  from Cons.IH [OF rest this]
  show ?case by (simp add: v FetchPage_Body [of net u, OF b])
qed




text \<open>The loops of the other two scrapers end at a malformed fragment in the same way.\<close>

lemma Debian_loop_malformed:
  "map Debian_rawlink pre = map Some us \<and> (\<forall>u\<in>set us. \<exists>b. net u = Body b None) \<and>
   Debian_rawlink bad = None \<longrightarrow>
     Debian_loop c net (pre @ bad # post) w =
       report ''can't parse'' (Debian_loop c net pre w) \<and>
     reqs (Debian_loop c net (pre @ bad # post) w) = reqs w @ us"
  using round_loop_malformed [of Debian_rawlink pre us net bad c post w]
    round_loop_reqs [of Debian_rawlink pre us net c w]
  by (simp add: Debian_loop_eq report_def)

lemma Slexy_loop_malformed:
  "map Slexy_rawlink pre = map Some us \<and> (\<forall>u\<in>set us. \<exists>b. net u = Body b None) \<and>
   Slexy_rawlink bad = None \<longrightarrow>
     Slexy_loop c net (pre @ bad # post) w =
       report ''can't parse'' (Slexy_loop c net pre w) \<and>
     reqs (Slexy_loop c net (pre @ bad # post) w) = reqs w @ us"
  using round_loop_malformed [of Slexy_rawlink pre us net bad c post w]
    round_loop_reqs [of Slexy_rawlink pre us net c w]
  by (simp add: Slexy_loop_eq report_def)

subsection \<open>The nil file\<close>







end
